theory Spec2Isabelle
  imports Main "HOL-Library.Word"
begin

unbundle bit_operations_syntax

text \<open>A shallow embedding of the library node-gm: the SM3 hash engine and the SM2 key pair
  with its digest signatures, followed by the properties of the code. JavaScript values are
  modelled by HOL values of the kind the code expects (byte arrays, strings, big integers,
  curve points); every exception the code can raise is a result \<open>Inl\<close> of the function that
  raises it.\<close>

section \<open>SM3 hash engine (sm\_sm3.js)\<close>

text \<open>A register of the engine is a JavaScript number holding an unsigned 32-bit value
  (the source forces it with \<open>>>> 0\<close>); it is modelled as an \<open>int\<close> with the reduction
  modulo \<open>2 ^ 32\<close> written where the source reduces. Bytes are 8-bit words.\<close>

type_synonym u8 = "8 word"
type_synonym u32 = int

definition u32_of :: "int \<Rightarrow> u32" where
  "u32_of x = x mod 4294967296"

text \<open>The exceptions of the modelled code: the constructor names follow the messages of
  the thrown \<open>Error\<close> objects. \<open>RedOnlyRedNumbers\<close> is the error "red works only with red
  numbers" that bn.js raises when a field operation meets a number of another reduction
  context, \<open>RedOnlyPositives\<close> its error "red works only with positives" for a negative
  number; \<open>TypeError\<close> is the runtime's error for a method call on \<open>null\<close>.\<close>

datatype error =
    CompressNotEnoughData
  | InvalidJ
  | InvalidPublicKey
  | InvalidPrivateKey
  | InvalidKey
  | InvalidKeyString
  | UnrecognizedKey
  | PublicKeyInfinity
  | PointNotOnCurve
  | RedOnlyRedNumbers
  | RedOnlyPositives
  | TypeError

text \<open>A message handed to \<open>write\<close> or \<open>sum\<close> is a JavaScript string or an array of bytes.\<close>

datatype jsmsg = Str string | Bytes "u8 list"

text \<open>The engine: the eight registers (the array \<open>reg\<close> always has eight entries), the
  bytes not yet compressed, and the number of bytes written.\<close>

record sm3 =
  reg :: "u32 list"
  chunk :: "u8 list"
  size :: nat

definition bind_res :: "error + 'a \<Rightarrow> ('a \<Rightarrow> error + 'b) \<Rightarrow> error + 'b" where
  "bind_res r f = (case r of Inl e \<Rightarrow> Inl e | Inr v \<Rightarrow> f v)"

text \<open>\<open>Array.prototype.slice(a, b)\<close>: a negative index counts from the end, both ends are
  clamped to the array.\<close>

definition js_slice :: "'a list \<Rightarrow> int \<Rightarrow> int \<Rightarrow> 'a list" where
  "js_slice xs a b =
     (let len = int (length xs);
          k = (if a < 0 then max (len + a) 0 else min a len);
          fin = (if b < 0 then max (len + b) 0 else min b len)
      in take (nat (fin - k)) (drop (nat k) xs))"

text \<open>Modelled from the spec: \<open>utils.strToBytes\<close> of sm\_utils.js, which is not among the
  sources; the spec names it the UTF-8 encoding of the string. A \<open>char\<close> is a code point
  below 256, encoded in one byte below 128 and in two bytes from there on.\<close>

definition utf8_char :: "char \<Rightarrow> u8 list" where
  "utf8_char c =
     (let k = of_char c :: int
      in if k < 128 then [of_int k]
         else [of_int (192 + k div 64), of_int (128 + k mod 64)])"

definition strToBytes :: "string \<Rightarrow> u8 list" where
  "strToBytes s = concat (map utf8_char s)"

definition msg_bytes :: "jsmsg \<Rightarrow> u8 list" where
  "msg_bytes m = (case m of Str s \<Rightarrow> strToBytes s | Bytes b \<Rightarrow> b)"

definition iv :: "u32 list" where
  "iv = [0x7380166f, 0x4914b2b9, 0x172442d7, 0xda8a0600,
         0xa96f30bc, 0x163138aa, 0xe38dee4d, 0xb0fb0e4e]"

definition reset :: "sm3 \<Rightarrow> sm3" where
  "reset st = st\<lparr>reg := iv, chunk := [], size := 0\<rparr>"

definition new_sm3 :: sm3 where
  "new_sm3 = \<lparr>reg = iv, chunk = [], size = 0\<rparr>"

subsection \<open>The compression function\<close>

definition t_const :: "nat \<Rightarrow> error + u32" where
  "t_const j = (if j < 16 then Inr 0x79cc4519
                else if 16 \<le> j \<and> j < 64 then Inr 0x7a879d8a
                else Inl InvalidJ)"

text \<open>\<open>((x << n) | (x >>> (32 - n))) >>> 0\<close> with \<open>n %= 32\<close>; a shift count is taken
  modulo 32, so for \<open>n = 0\<close> the right shift is by 0.\<close>

definition rotl :: "u32 \<Rightarrow> nat \<Rightarrow> u32" where
  "rotl x k =
     (let n = k mod 32
      in u32_of (u32_of (push_bit n x) OR drop_bit ((32 - n) mod 32) (u32_of x)))"

text \<open>Reading past the end of a JavaScript array gives \<open>undefined\<close>, which the shift
  operators take as 0.\<close>

definition byte_at :: "u8 list \<Rightarrow> nat \<Rightarrow> u32" where
  "byte_at b i = (if i < length b then uint (b ! i) else 0)"

definition load_word :: "u8 list \<Rightarrow> nat \<Rightarrow> u32" where
  "load_word b i =
     u32_of (push_bit 24 (byte_at b (i * 4)) OR push_bit 16 (byte_at b (i * 4 + 1))
       OR push_bit 8 (byte_at b (i * 4 + 2)) OR byte_at b (i * 4 + 3))"

definition expand_step :: "u32 list \<Rightarrow> nat \<Rightarrow> u32" where
  "expand_step w j =
     (let x = w ! (j - 16) XOR w ! (j - 9) XOR rotl (w ! (j - 3)) 15;
          x = x XOR rotl x 15 XOR rotl x 23
      in u32_of (x XOR rotl (w ! (j - 13)) 7 XOR w ! (j - 6)))"

text \<open>The array \<open>w\<close> is built front to back: \<open>w[0..15]\<close> from the block, \<open>w[16..67]\<close> by
  the recurrence, \<open>w[68..131]\<close> as \<open>w[j] ^ w[j + 4]\<close>.\<close>

fun expand_fill :: "nat \<Rightarrow> u32 list \<Rightarrow> u32 list" where
  "expand_fill 0 w = w"
| "expand_fill (Suc k) w = expand_fill k (w @ [expand_step w (length w)])"

definition expand :: "u8 list \<Rightarrow> u32 list" where
  "expand b =
     (let w = expand_fill 52 (map (load_word b) [0..<16])
      in w @ map (\<lambda>j. u32_of (w ! j XOR w ! (j + 4))) [0..<64])"

definition ff :: "nat \<Rightarrow> u32 \<Rightarrow> u32 \<Rightarrow> u32 \<Rightarrow> error + u32" where
  "ff j x y z = (if j < 16 then Inr (u32_of (x XOR y XOR z))
                 else if 16 \<le> j \<and> j < 64 then Inr (u32_of ((x AND y) OR (x AND z) OR (y AND z)))
                 else Inl InvalidJ)"

definition gg :: "nat \<Rightarrow> u32 \<Rightarrow> u32 \<Rightarrow> u32 \<Rightarrow> error + u32" where
  "gg j x y z = (if j < 16 then Inr (u32_of (x XOR y XOR z))
                 else if 16 \<le> j \<and> j < 64 then Inr (u32_of ((x AND y) OR (NOT x AND z)))
                 else Inl InvalidJ)"

definition round_step :: "u32 list \<Rightarrow> nat \<Rightarrow> u32 list \<Rightarrow> error + u32 list" where
  "round_step w j r =
     bind_res (t_const j) (\<lambda>tj.
     let ss1 = rotl (r ! 0) 12 + r ! 4 + rotl tj j;
         ss1 = u32_of ss1;
         ss1 = rotl ss1 7;
         ss2 = u32_of (ss1 XOR rotl (r ! 0) 12)
     in bind_res (ff j (r ! 0) (r ! 1) (r ! 2)) (\<lambda>f.
     let tt1 = f + r ! 3 + ss2 + w ! (j + 68);
         tt1 = u32_of tt1
     in bind_res (gg j (r ! 4) (r ! 5) (r ! 6)) (\<lambda>g.
     let tt2 = g + r ! 7 + ss1 + w ! j;
         tt2 = u32_of tt2;
         r = r[3 := r ! 2];
         r = r[2 := rotl (r ! 1) 9];
         r = r[1 := r ! 0];
         r = r[0 := tt1];
         r = r[7 := r ! 6];
         r = r[6 := rotl (r ! 5) 19];
         r = r[5 := r ! 4];
         r = r[4 := u32_of (tt2 XOR rotl tt2 9 XOR rotl tt2 17)]
     in Inr r)))"

text \<open>The loop \<open>for (j = 0; j < 64; j++)\<close>, counted by the rounds still to run.\<close>

fun rounds :: "u32 list \<Rightarrow> nat \<Rightarrow> nat \<Rightarrow> u32 list \<Rightarrow> error + u32 list" where
  "rounds w j 0 r = Inr r"
| "rounds w j (Suc k) r = bind_res (round_step w j r) (rounds w (Suc j) k)"

text \<open>The guard \<open>m < 64\<close> compares the array itself with a number: an empty array converts
  to 0, a one-element array to its element, any longer array to NaN, for which the
  comparison is false.\<close>

definition array_lt_64 :: "u8 list \<Rightarrow> bool" where
  "array_lt_64 m = (case m of [] \<Rightarrow> True | [x] \<Rightarrow> unat x < 64 | _ \<Rightarrow> False)"

definition compress :: "u32 list \<Rightarrow> u8 list \<Rightarrow> error + u32 list" where
  "compress rg m =
     (if array_lt_64 m then Inl CompressNotEnoughData
      else bind_res (rounds (expand m) 0 64 rg) (\<lambda>r.
             Inr (map (\<lambda>i. u32_of (rg ! i XOR r ! i)) [0..<8])))"

subsection \<open>write, \_fill and sum\<close>

text \<open>The methods \<open>write\<close> and \<open>sum\<close> are \<open>write_sm3\<close> and \<open>sum_sm3\<close> here.\<close>

text \<open>The \<open>while\<close> loop of \<open>write\<close>: \<open>m\<close> is the message, \<open>i\<close> the index of its first byte
  not yet copied into the chunk.\<close>

function write_loop :: "u8 list \<Rightarrow> u32 list \<Rightarrow> u8 list \<Rightarrow> int \<Rightarrow> error + u32 list \<times> u8 list" where
  "write_loop m rg ch i =
     (if 64 \<le> length ch then
        (case compress rg ch of
           Inl e \<Rightarrow> Inl e
         | Inr rg' \<Rightarrow>
             write_loop m rg'
               (if i < int (length m) then js_slice m i (min (i + 64) (int (length m))) else [])
               (i + 64))
      else Inr (rg, ch))"
  by pat_completeness auto
termination
  by (relation "measure (\<lambda>(m, rg, ch, i).
        if 64 \<le> length ch then nat (int (length m) - i) + 1 else 0)") auto

definition write_sm3 :: "sm3 \<Rightarrow> jsmsg \<Rightarrow> error + sm3" where
  "write_sm3 st msg =
     (let m = msg_bytes msg;
          sz = size st + length m;
          i = 64 - int (length (chunk st))
      in if int (length m) < i then Inr (st\<lparr>chunk := chunk st @ m, size := sz\<rparr>)
         else (case write_loop m (reg st) (chunk st @ js_slice m 0 i) i of
                 Inl e \<Rightarrow> Inl e
               | Inr (rg, ch) \<Rightarrow> Inr (st\<lparr>reg := rg, chunk := ch, size := sz\<rparr>)))"

text \<open>\<open>(v >>> ((3 - i) * 8)) & 0xff\<close> for \<open>i = 0, 1, 2, 3\<close>, on the low 32 bits of \<open>v\<close>.\<close>

definition be4 :: "int \<Rightarrow> u8 list" where
  "be4 v = map (\<lambda>i. of_int (drop_bit ((3 - i) * 8) (u32_of v) AND 255)) [0..<4]"

text \<open>The byte count \<open>size\<close> is a natural number here; the source keeps it in a double, exact
  below \<open>2 ^ 53\<close>.\<close>

definition fill :: "sm3 \<Rightarrow> sm3" where
  "fill st =
     (let l = int (size st) * 8;
          ch = chunk st @ [0x80];
          len = int (length ch) mod 64;
          len = (if 64 - len < 8 then len - 64 else len);
          ch = ch @ replicate (nat (56 - len)) 0;
          hi = l div 4294967296
      in st\<lparr>chunk := ch @ be4 hi @ be4 l\<rparr>)"

function sum_loop :: "u8 list \<Rightarrow> u32 list \<Rightarrow> nat \<Rightarrow> error + u32 list" where
  "sum_loop ch rg i =
     (if i < length ch then
        (case compress rg (js_slice ch (int i) (int i + 64)) of
           Inl e \<Rightarrow> Inl e
         | Inr rg' \<Rightarrow> sum_loop ch rg' (i + 64))
      else Inr rg)"
  by pat_completeness auto
termination
  by (relation "measure (\<lambda>(ch, rg, i). length ch - i)") auto

text \<open>\<open>Number.prototype.toString(16)\<close> on a non-negative integer: lowercase digits, no
  leading zero.\<close>

definition hex_digit :: "int \<Rightarrow> char" where
  "hex_digit d = (''0123456789abcdef'') ! nat (d mod 16)"

function to_hex :: "int \<Rightarrow> string" where
  "to_hex v = (if v < 16 then [hex_digit v] else to_hex (v div 16) @ [hex_digit (v mod 16)])"
  by pat_completeness auto
termination
  by (relation "measure nat") auto

declare to_hex.simps [simp del]

definition reg_bytes :: "u32 \<Rightarrow> u8 list" where
  "reg_bytes h =
     [of_int (drop_bit 24 h AND 255), of_int (drop_bit 16 h AND 255),
      of_int (drop_bit 8 h AND 255), of_int (h AND 255)]"

text \<open>Bytes as lowercase hex text, two digits for each byte: the rendering of the helper
  \<open>sm3Digest\<close> (\<open>('0' + (byte & 0xFF).toString(16)).slice(-2)\<close>, joined).\<close>

definition byte_hex2 :: "u8 \<Rightarrow> string" where
  "byte_hex2 x = (let s = ''0'' @ to_hex (uint x AND 255) in js_slice s (- 2) (int (length s)))"

definition bytes_hex :: "u8 list \<Rightarrow> string" where
  "bytes_hex b = concat (map byte_hex2 b)"

datatype digest = Hex string | Raw "u8 list"

text \<open>The test \<open>if (msg)\<close>: an absent argument and the empty string are falsy, every array
  (the empty one too) is truthy.\<close>

definition truthy_msg :: "jsmsg option \<Rightarrow> bool" where
  "truthy_msg msg = (case msg of None \<Rightarrow> False | Some (Str s) \<Rightarrow> s \<noteq> [] | Some (Bytes b) \<Rightarrow> True)"

definition sum_sm3 :: "sm3 \<Rightarrow> jsmsg option \<Rightarrow> string option \<Rightarrow> error + digest \<times> sm3" where
  "sum_sm3 st msg enc =
     (case (if truthy_msg msg then write_sm3 (reset st) (the msg) else Inr st) of
        Inl e \<Rightarrow> Inl e
      | Inr st \<Rightarrow>
          (let st = fill st
           in case sum_loop (chunk st) (reg st) 0 of
                Inl e \<Rightarrow> Inl e
              | Inr rg \<Rightarrow>
                  (let st = st\<lparr>reg := rg\<rparr>;
                       d = (if enc = Some ''hex''
                            then Hex (concat (map (\<lambda>i. to_hex (reg st ! i)) [0..<8]))
                            else Raw (concat (map (\<lambda>i. reg_bytes (reg st ! i)) [0..<8])))
                   in Inr (d, reset st))))"

text \<open>A sequence of \<open>write\<close> calls on one engine; the first exception ends it.\<close>

fun writes :: "sm3 \<Rightarrow> jsmsg list \<Rightarrow> error + sm3" where
  "writes st [] = Inr st"
| "writes st (a # as) = (case write_sm3 st a of Inl e \<Rightarrow> Inl e | Inr st' \<Rightarrow> writes st' as)"

text \<open>A reference description of what \<open>write\<close> does to the registers and the chunk, used
  in the proofs only: compress the data 64 bytes at a time and keep the rest.\<close>

function absorb :: "u32 list \<Rightarrow> u8 list \<Rightarrow> error + u32 list \<times> u8 list" where
  "absorb rg xs =
     (if 64 \<le> length xs then
        (case compress rg (take 64 xs) of
           Inl e \<Rightarrow> Inl e
         | Inr rg' \<Rightarrow> absorb rg' (drop 64 xs))
      else Inr (rg, xs))"
  by pat_completeness auto
termination
  by (relation "measure (\<lambda>(rg, xs). length xs)") auto

declare absorb.simps [simp del]
declare write_loop.simps [simp del]
declare sum_loop.simps [simp del]

section \<open>SM2 key pairs and signatures (sm\_sm2.js)\<close>

subsection \<open>Big integers (bn.js) as \<open>int\<close>\<close>

text \<open>The library bn.js is not part of the repository. A \<open>BN\<close> value is an \<open>int\<close> here,
  and the operations the source calls are given by their meaning on integers: \<open>umod\<close> is
  \<open>mod\<close> with a positive modulus, \<open>cmp\<close> the order, \<open>invm\<close> the inverse modulo a number
  computed by the extended Euclidean algorithm.\<close>

function egcd_coeff :: "int \<Rightarrow> int \<Rightarrow> int \<Rightarrow> int \<Rightarrow> int" where
  "egcd_coeff r0 r1 s0 s1 =
     (if r1 \<le> 0 then s0
      else egcd_coeff r1 (r0 mod r1) s1 (s0 - (r0 div r1) * s1))"
  by pat_completeness auto
termination
  by (relation "measure (\<lambda>(r0, r1, s0, s1). nat r1)") auto

declare egcd_coeff.simps [simp del]

definition invm :: "int \<Rightarrow> int \<Rightarrow> int" where
  "invm a m = egcd_coeff m (a mod m) 0 1 mod m"

text \<open>\<open>red.pow(a, e)\<close>: modular exponentiation by squaring.\<close>

function mod_pow :: "int \<Rightarrow> int \<Rightarrow> int \<Rightarrow> int" where
  "mod_pow a e m =
     (if e \<le> 0 then 1 mod m
      else if e mod 2 = 0 then mod_pow (a * a mod m) (e div 2) m
      else a * mod_pow (a * a mod m) (e div 2) m mod m)"
  by pat_completeness auto
termination
  by (relation "measure (\<lambda>(a, e, m). nat e)") auto

declare mod_pow.simps [simp del]

text \<open>\<open>new BN(s, 16)\<close> on a string: the constructor removes white space
  (\<open>replace(/\s+/g, '')\<close>), takes a leading \<open>-\<close> as the sign and reads the rest digit by
  digit. A character that is no hex digit contributes the low four bits of its distance from
  \<open>0\<close>, as bn.js 4 does.\<close>

definition js_space :: "char \<Rightarrow> bool" where
  "js_space ch = (let c = of_char ch :: int in (9 \<le> c \<and> c \<le> 13) \<or> c = 32 \<or> c = 160)"

definition bn_parse :: "(char \<Rightarrow> int) \<Rightarrow> int \<Rightarrow> string \<Rightarrow> int" where
  "bn_parse digit base s =
     (let t = filter (\<lambda>c. \<not> js_space c) s
      in if t \<noteq> [] \<and> hd t = CHR ''-''
         then - foldl (\<lambda>acc c. acc * base + digit c) 0 (tl t)
         else foldl (\<lambda>acc c. acc * base + digit c) 0 t)"

definition hex_val :: "char \<Rightarrow> int" where
  "hex_val ch =
     (let c = of_char ch - (48 :: int)
      in if 49 \<le> c \<and> c \<le> 54 then c - 49 + 10
         else if 17 \<le> c \<and> c \<le> 22 then c - 17 + 10
         else c mod 16)"

definition bn_hex :: "string \<Rightarrow> int" where
  "bn_hex s = bn_parse hex_val 16 s"

text \<open>\<open>new BN(s)\<close> with the base left out: the constructor's default base is 10. White
  space and sign are treated as before; each character is taken as a digit (a letter \<open>a\<close> to
  \<open>f\<close> counts 10 to 15, as bn.js 4 does) and weighted by a power of ten; on a string of
  decimal digits this is the decimal value.\<close>

definition dec_val :: "char \<Rightarrow> int" where
  "dec_val ch =
     (let c = of_char ch - (48 :: int)
      in if 49 \<le> c then c - 49 + 10
         else if 17 \<le> c then c - 17 + 10
         else c)"

definition bn_dec :: "string \<Rightarrow> int" where
  "bn_dec s = bn_parse dec_val 10 s"

text \<open>\<open>new BN(bytes, 16)\<close> on an array: the big-endian value of the bytes.\<close>

definition bn_bytes :: "u8 list \<Rightarrow> int" where
  "bn_bytes b = foldl (\<lambda>acc x. acc * 256 + uint x) 0 b"

text \<open>\<open>toString(16, padding)\<close>: lowercase hex digits, then zeros in front until the length
  is a multiple of \<open>padding\<close>.\<close>

definition bn_toString16 :: "int \<Rightarrow> nat \<Rightarrow> string" where
  "bn_toString16 v padding =
     (let out = to_hex v
      in replicate ((padding - length out mod padding) mod padding) CHR ''0'' @ out)"

text \<open>\<open>toArray()\<close>: the big-endian bytes with no leading zero byte (one zero byte for 0);
  \<open>toArray('be', len)\<close>: the same, zero-padded in front to \<open>len\<close> bytes.\<close>

function bn_toArray :: "int \<Rightarrow> u8 list" where
  "bn_toArray v = (if v < 256 then [of_int v] else bn_toArray (v div 256) @ [of_int (v mod 256)])"
  by pat_completeness auto
termination
  by (relation "measure nat") auto

declare bn_toArray.simps [simp del]

definition bn_toArray_len :: "int \<Rightarrow> nat \<Rightarrow> u8 list" where
  "bn_toArray_len v len = (let b = bn_toArray v in replicate (len - length b) 0 @ b)"

subsection \<open>The curve (class SM2Curve over elliptic.curve.short)\<close>

definition sm2_p :: int where
  "sm2_p = 0xFFFFFFFEFFFFFFFFFFFFFFFFFFFFFFFFFFFFFFFF00000000FFFFFFFFFFFFFFFF"

definition sm2_a :: int where
  "sm2_a = 0xFFFFFFFEFFFFFFFFFFFFFFFFFFFFFFFFFFFFFFFF00000000FFFFFFFFFFFFFFFC"

definition sm2_b :: int where
  "sm2_b = 0x28E9FA9E9D9F5E344D5A9E4BCF6509A7F39789F515AB8F92DDBCBD414D940E93"

definition sm2_n :: int where
  "sm2_n = 0xFFFFFFFEFFFFFFFFFFFFFFFFFFFFFFFF7203DF6B21C6052B53BBF40939D54123"

text \<open>A point object of the library elliptic: the point at infinity, or affine coordinates
  reduced modulo \<open>p\<close>.\<close>

datatype point = Infinity | Point int int

definition sm2_g :: point where
  "sm2_g = Point 0x32C4AE2C1F1981195F9904466A39C9948FE30BBFF2660BE1715A4589334C74C7
                 0xBC3736A2F4F6779C59BDCEE36B692153D0A9877CC62A474002DF32E52139F0A0"

text \<open>\<open>curve.point(x, y)\<close> brings both coordinates into the field.\<close>

definition mk_point :: "int \<Rightarrow> int \<Rightarrow> point" where
  "mk_point x y = Point (x mod sm2_p) (y mod sm2_p)"

text \<open>\<open>curve.validate(point)\<close>: the curve equation; true for the point at infinity.\<close>

definition curve_validate :: "point \<Rightarrow> bool" where
  "curve_validate pt =
     (case pt of
        Infinity \<Rightarrow> True
      | Point x y \<Rightarrow> (y * y - (x * x * x + sm2_a * x + sm2_b)) mod sm2_p = 0)"

definition isInfinity :: "point \<Rightarrow> bool" where
  "isInfinity pt = (pt = Infinity)"

text \<open>\<open>getX()\<close> and \<open>getY()\<close> read a coordinate; on the point at infinity the coordinate
  is \<open>null\<close> and the call raises a TypeError.\<close>

definition getX :: "point \<Rightarrow> error + int" where
  "getX pt = (case pt of Infinity \<Rightarrow> Inl TypeError | Point x y \<Rightarrow> Inr x)"

definition getY :: "point \<Rightarrow> error + int" where
  "getY pt = (case pt of Infinity \<Rightarrow> Inl TypeError | Point x y \<Rightarrow> Inr y)"

text \<open>The affine group law of the library (\<open>dbl\<close>, \<open>neg\<close>, \<open>add\<close>); every field operation
  (\<open>redAdd\<close>, \<open>redSub\<close>, \<open>redMul\<close>, \<open>redSqr\<close>, \<open>redInvm\<close>) reduces modulo \<open>p\<close>.\<close>

definition point_dbl :: "point \<Rightarrow> point" where
  "point_dbl pt =
     (case pt of
        Infinity \<Rightarrow> Infinity
      | Point x y \<Rightarrow>
          (let ys1 = (y + y) mod sm2_p
           in if ys1 = 0 then Infinity
              else (let x2 = x * x mod sm2_p;
                        dyinv = invm ys1 sm2_p;
                        c = (x2 + x2 + x2 + sm2_a) mod sm2_p * dyinv mod sm2_p;
                        nx = (c * c mod sm2_p - (x + x) mod sm2_p) mod sm2_p;
                        ny = (c * ((x - nx) mod sm2_p) mod sm2_p - y) mod sm2_p
                    in Point nx ny)))"

definition point_neg :: "point \<Rightarrow> point" where
  "point_neg pt = (case pt of Infinity \<Rightarrow> Infinity | Point x y \<Rightarrow> Point x ((- y) mod sm2_p))"

fun point_add :: "point \<Rightarrow> point \<Rightarrow> point" where
  "point_add Infinity p2 = p2"
| "point_add (Point x1 y1) Infinity = Point x1 y1"
| "point_add (Point x1 y1) (Point x2 y2) =
     (if Point x1 y1 = Point x2 y2 then point_dbl (Point x1 y1)
      else if point_neg (Point x1 y1) = Point x2 y2 then Infinity
      else if x1 = x2 then Infinity
      else (let c = (y1 - y2) mod sm2_p;
                c = (if c \<noteq> 0 then c * invm ((x1 - x2) mod sm2_p) sm2_p mod sm2_p else c);
                nx = ((c * c mod sm2_p - x1) mod sm2_p - x2) mod sm2_p;
                ny = (c * ((x1 - nx) mod sm2_p) mod sm2_p - y1) mod sm2_p
            in Point nx ny))"

text \<open>\<open>point.mul(k)\<close> for a scalar \<open>k \<ge> 0\<close>: the \<open>k\<close>-fold sum of the point, computed here by
  doubling and adding along the binary digits of \<open>k\<close>; \<open>[0]P\<close> is the point at infinity. The
  library uses windowed methods, which give the same group element for a point on the
  curve.\<close>

function point_times :: "point \<Rightarrow> int \<Rightarrow> point" where
  "point_times pt k =
     (if k \<le> 0 then Infinity
      else if k mod 2 = 0 then point_dbl (point_times pt (k div 2))
      else point_add (point_dbl (point_times pt (k div 2))) pt)"
  by pat_completeness auto
termination
  by (relation "measure (\<lambda>(pt, k). nat k)") auto

declare point_times.simps [simp del]

text \<open>For a negative scalar the digit routine of the library (\<open>getNAF\<close>, elliptic 6.5) works
  on the magnitude \<open>a\<close> of the number. It runs for \<open>max(bitLength, 256) + 1\<close> steps; at an odd
  magnitude the digit \<open>z\<close> is its low five bits \<open>m\<close> if \<open>m \<le> 15\<close> and \<open>16 - m\<close> otherwise, and
  the magnitude becomes \<open>(a + z) / 2\<close>; at an even magnitude the digit is 0 and the magnitude
  is halved. The magnitude never reaches 0, and the point returned is the multiple by the
  value of the digits, \<open>naf_neg_value\<close>: for \<open>k = -1\<close> all 257 digits are 1.\<close>

function bit_length :: "int \<Rightarrow> nat" where
  "bit_length a = (if a \<le> 0 then 0 else Suc (bit_length (a div 2)))"
  by pat_completeness auto
termination
  by (relation "measure nat") auto

declare bit_length.simps [simp del]

fun naf_neg_value :: "nat \<Rightarrow> int \<Rightarrow> int" where
  "naf_neg_value 0 a = 0"
| "naf_neg_value (Suc l) a =
     (if a mod 2 = 1 then
        (let m = a mod 32;
             z = (if m > 15 then 16 - m else m)
         in z + 2 * naf_neg_value l ((a + z) div 2))
      else 2 * naf_neg_value l (a div 2))"

definition point_mul :: "point \<Rightarrow> int \<Rightarrow> point" where
  "point_mul pt k =
     (if 0 \<le> k then point_times pt k
      else (let v = naf_neg_value (max (bit_length (- k)) 256 + 1) (- k)
            in if 0 \<le> v then point_times pt v else point_neg (point_times pt (- v))))"

text \<open>An argument that is a coordinate: a hex string or an array of bytes.\<close>

datatype coord = CoordStr string | CoordBytes "u8 list"

definition bn_coord :: "coord \<Rightarrow> int" where
  "bn_coord c = (case c of CoordStr s \<Rightarrow> bn_hex s | CoordBytes b \<Rightarrow> bn_bytes b)"

text \<open>\<open>_sm2Point(x, y, parity)\<close>. The callers pass a 64-character string or a 32-byte array
  for \<open>x\<close>, which is truthy, so the branch \<open>if (!x)\<close> is not taken. A coordinate enters the
  field by \<open>toRed\<close>, which raises the error "red works only with positives" of bn.js on a
  negative number (a hex string with the sign \<open>-\<close>). With \<open>y\<close> the point is checked against
  the curve; without it, \<open>y\<close> is the square root \<open>redSqrt\<close> of the right-hand side, which for
  \<open>p mod 4 = 3\<close> is the power \<open>(p + 1) / 4\<close>, negated when its parity is not the one asked
  for.\<close>

definition sm2Point :: "coord \<Rightarrow> coord option \<Rightarrow> bool \<Rightarrow> error + point" where
  "sm2Point x y odd_parity =
     (case y of
        Some y \<Rightarrow>
          (let cx = bn_coord x;
               cy = bn_coord y
           in if cx < 0 \<or> cy < 0 then Inl RedOnlyPositives
              else (let pt = mk_point cx cy
                    in if \<not> curve_validate pt then Inl PointNotOnCurve else Inr pt))
      | None \<Rightarrow>
          (let cx = bn_coord x
           in if cx < 0 then Inl RedOnlyPositives
              else (let px = cx mod sm2_p;
                        py = px * px mod sm2_p * px mod sm2_p;
                        py = mod_pow ((py + px * sm2_a mod sm2_p + sm2_b) mod sm2_p) ((sm2_p + 1) div 4) sm2_p;
                        py = (if odd_parity \<noteq> (py mod 2 = 1) then (- py) mod sm2_p else py)
                    in Inr (Point px py))))"

subsection \<open>class SM2KeyPair\<close>

text \<open>A key pair holds the public key (a point object or \<open>null\<close>) and the private key (a
  \<open>BN\<close> or \<open>null\<close>). The constructor makes a new curve object for every key pair, and a
  point object carries the reduction context of the curve object that made it; \<open>pub_foreign\<close>
  records that the point in \<open>pub\<close> was made by another curve object than \<open>this.curve\<close>. That
  is the case exactly for a point object handed to the constructor.\<close>

record keypair =
  pub :: "point option"
  pri :: "int option"
  pub_foreign :: bool

text \<open>What the constructor can be given: for the public key a hex string, a byte array, a
  point object that a curve object \<open>SM2Curve\<close> has made (an object with \<open>BN\<close> coordinates
  \<open>x\<close> and \<open>y\<close>; \<open>PubPoint\<close> holds the coordinates), or something else; for the private key a hex string, a \<open>BN\<close>, or
  something else. \<open>None\<close> is \<open>null\<close>.\<close>

datatype pub_arg = PubStr string | PubBytes "u8 list" | PubPoint int int | PubOther

datatype pri_arg = PriStr string | PriBN int | PriOther

definition pubFromString :: "string \<Rightarrow> error + point" where
  "pubFromString s =
     (if length s < 66 then Inl InvalidKeyString
      else (let x = js_slice s 2 66;
                tag = js_slice s 0 2
            in if tag = ''00'' then Inl PublicKeyInfinity
               else if tag = ''02'' then sm2Point (CoordStr x) None False
               else if tag = ''03'' then sm2Point (CoordStr x) None True
               else if tag = ''04'' \<or> tag = ''06'' \<or> tag = ''07'' then
                 (if length s < 130 then Inl InvalidKeyString
                  else sm2Point (CoordStr x) (Some (CoordStr (js_slice s 66 130))) False)
               else Inl InvalidKeyString))"

definition pubFromBytes :: "u8 list \<Rightarrow> error + point" where
  "pubFromBytes b =
     (if length b < 33 then Inl UnrecognizedKey
      else (let x = js_slice b 1 33;
                tag = b ! 0
            in if tag = 0x00 then Inl PublicKeyInfinity
               else if tag = 0x02 then sm2Point (CoordBytes x) None False
               else if tag = 0x03 then sm2Point (CoordBytes x) None True
               else if tag = 0x04 \<or> tag = 0x06 \<or> tag = 0x07 then
                 (if length b < 65 then Inl UnrecognizedKey
                  else sm2Point (CoordBytes x) (Some (CoordBytes (js_slice b 33 65))) False)
               else Inl UnrecognizedKey))"

definition point_eq :: "point \<Rightarrow> point \<Rightarrow> bool" where
  "point_eq p1 p2 = (p1 = p2)"

text \<open>\<open>validate()\<close>. On a point of another curve object \<open>curve.validate\<close> raises the error
  of bn.js at its first field operation.\<close>

definition validate :: "keypair \<Rightarrow> error + bool" where
  "validate kp =
     bind_res
       (case pub kp of
          None \<Rightarrow> Inr True
        | Some pt \<Rightarrow>
            if isInfinity pt then Inr False
            else if pub_foreign kp then Inl RedOnlyRedNumbers
            else if \<not> curve_validate pt then Inr False
            else if \<not> isInfinity (point_mul pt sm2_n) then Inr False
            else Inr True)
       (\<lambda>ok. if \<not> ok then Inr False
             else (case pri kp of
                     None \<Rightarrow> Inr True
                   | Some d \<Rightarrow>
                       if d > sm2_n - 2 then Inr False
                       else if pub kp \<noteq> None \<and> \<not> point_eq (the (pub kp)) (point_mul sm2_g d)
                       then Inr False
                       else Inr True))"

text \<open>The tests \<open>if (pub)\<close> and \<open>if (pri)\<close>: \<open>null\<close> and the empty string are falsy, arrays
  and objects are truthy.\<close>

definition truthy_pub :: "pub_arg option \<Rightarrow> bool" where
  "truthy_pub a = (case a of None \<Rightarrow> False | Some (PubStr s) \<Rightarrow> s \<noteq> [] | Some _ \<Rightarrow> True)"

definition truthy_pri :: "pri_arg option \<Rightarrow> bool" where
  "truthy_pri a = (case a of None \<Rightarrow> False | Some (PriStr s) \<Rightarrow> s \<noteq> [] | Some _ \<Rightarrow> True)"

text \<open>The constructor. \<open>read_pub\<close> reads the public key and sets \<open>validPub\<close>, \<open>read_pri\<close>
  reads the private key, sets \<open>validPri\<close> and derives a missing public key; \<open>key_material\<close>
  is the two in sequence. The constructor then validates unless both flags are set, and
  raises "invalid key" when \<open>validate\<close> returns false.\<close>

definition read_pub :: "pub_arg option \<Rightarrow> error + point option \<times> bool" where
  "read_pub a =
     (if truthy_pub a then
        (case the a of
           PubStr s \<Rightarrow> bind_res (pubFromString s) (\<lambda>pt. Inr (Some pt, False))
         | PubBytes b \<Rightarrow> bind_res (pubFromBytes b) (\<lambda>pt. Inr (Some pt, False))
         | PubPoint x y \<Rightarrow> Inr (Some (Point x y), True)
         | PubOther \<Rightarrow> Inl InvalidPublicKey)
      else Inr (None, False))"

definition read_pri :: "pri_arg option \<Rightarrow> point option \<Rightarrow> error + point option \<times> int option \<times> bool" where
  "read_pri a pb =
     (if truthy_pri a then
        bind_res (case the a of
                    PriStr s \<Rightarrow> Inr (bn_hex s, False)
                  | PriBN d \<Rightarrow> Inr (d, True)
                  | PriOther \<Rightarrow> Inl InvalidPrivateKey)
          (\<lambda>(d, validPri).
             Inr (if pb = None then Some (point_mul sm2_g d) else pb, Some d, validPri))
      else Inr (pb, None, False))"

definition key_material :: "pub_arg option \<Rightarrow> pri_arg option \<Rightarrow> error + keypair \<times> bool \<times> bool" where
  "key_material pub_a pri_a =
     bind_res (read_pub pub_a) (\<lambda>(pb, validPub).
     bind_res (read_pri pri_a pb) (\<lambda>(pb, pr, validPri).
       Inr (\<lparr>pub = pb, pri = pr, pub_foreign = validPub\<rparr>, validPub, validPri)))"

definition SM2KeyPair :: "pub_arg option \<Rightarrow> pri_arg option \<Rightarrow> error + keypair" where
  "SM2KeyPair pub_a pri_a =
     bind_res (key_material pub_a pri_a) (\<lambda>(kp, validPub, validPri).
       if validPub \<and> validPri then Inr kp
       else bind_res (validate kp) (\<lambda>ok. if \<not> ok then Inl InvalidKey else Inr kp))"

text \<open>\<open>pubToString(mode)\<close> and \<open>pubToBytes(mode)\<close>. A key pair without public key has
  \<open>pub = null\<close>, on which the method call raises a TypeError.\<close>

definition pub_xy :: "keypair \<Rightarrow> error + int \<times> int" where
  "pub_xy kp =
     (case pub kp of
        None \<Rightarrow> Inl TypeError
      | Some pt \<Rightarrow> bind_res (getX pt) (\<lambda>x. bind_res (getY pt) (\<lambda>y. Inr (x, y))))"

definition pubToString :: "keypair \<Rightarrow> string \<Rightarrow> error + string" where
  "pubToString kp mode =
     bind_res (pub_xy kp) (\<lambda>(x, y).
       if mode = ''compress'' then
         Inr ((if y mod 2 = 0 then ''02'' else ''03'') @ bn_toString16 x 32)
       else
         (let s = (if mode = ''mix'' then (if y mod 2 = 0 then ''06'' else ''07'') else ''04'')
          in Inr (s @ bn_toString16 x 32 @ bn_toString16 y 32)))"

definition pubToBytes :: "keypair \<Rightarrow> string \<Rightarrow> error + u8 list" where
  "pubToBytes kp mode =
     bind_res (pub_xy kp) (\<lambda>(x, y).
       if mode = ''compress'' then
         Inr ((if y mod 2 = 0 then [0x02] else [0x03]) @ bn_toArray_len x 32)
       else
         (let a = (if mode = ''mix'' then (if y mod 2 = 0 then [0x06] else [0x07]) else [0x04])
          in Inr (a @ bn_toArray_len x 32 @ bn_toArray_len y 32)))"

subsection \<open>Signing and verifying a digest\<close>

text \<open>Modelled from the spec: \<open>utils.hashToBN\<close> of sm\_utils.js, which is not among the
  sources; the spec reads the digest as a 256-bit big-endian integer.\<close>

definition hashToBN :: "u8 list \<Rightarrow> int" where
  "hashToBN digest = bn_bytes digest"

text \<open>The generator \<open>_drbg\<close> is a process-wide object of the library hmac-drbg. One call
  \<open>_drbg.generate(32, 'hex', ...)\<close> yields 32 bytes, rendered as 64 lowercase hex digits;
  the bytes the generator will yield are a list of draws here, and a loop that has used them
  all up without finishing returns \<open>None\<close>.\<close>

definition drbg_hex :: "u8 list \<Rightarrow> string" where
  "drbg_hex draw = bytes_hex draw"

text \<open>The nonce of one iteration of \<open>signDigest\<close>.\<close>

definition sign_nonce :: "u8 list \<Rightarrow> int" where
  "sign_nonce draw = bn_hex (drbg_hex draw) mod sm2_n"

fun signDigest :: "keypair \<Rightarrow> u8 list \<Rightarrow> u8 list list \<Rightarrow> (error + string \<times> string) option" where
  "signDigest kp digest [] = None"
| "signDigest kp digest (draw # draws) =
     (let k = sign_nonce draw;
          kg = point_mul sm2_g k
      in case getX kg of
           Inl e \<Rightarrow> Some (Inl e)
         | Inr x1 \<Rightarrow>
             (let r = (hashToBN digest + x1) mod sm2_n
              in if r = 0 then signDigest kp digest draws
                 else if r + k = sm2_n then signDigest kp digest draws
                 else (case pri kp of
                         None \<Rightarrow> Some (Inl TypeError)
                       | Some d \<Rightarrow>
                           (let t1 = invm (1 + d) sm2_n;
                                t2 = (k - r * d) mod sm2_n;
                                s = t1 * t2 mod sm2_n
                            in if s \<noteq> 0 then Some (Inr (to_hex r, to_hex s))
                               else signDigest kp digest draws))))"

text \<open>\<open>P.add(Q)\<close> for a point \<open>Q\<close> of another curve object: the tests for infinity and the
  comparisons of coordinates work, the first field operation (\<open>redSub\<close>) raises the error
  of bn.js.\<close>

definition point_add_foreign :: "point \<Rightarrow> point \<Rightarrow> error + point" where
  "point_add_foreign p1 p2 =
     (if p1 = Infinity then Inr p2
      else if p2 = Infinity then Inr p1
      else if p1 = p2 then Inr (point_dbl p1)
      else if point_neg p1 = p2 then Inr Infinity
      else if getX p1 = getX p2 then Inr Infinity
      else Inl RedOnlyRedNumbers)"

definition verifyDigest :: "keypair \<Rightarrow> u8 list \<Rightarrow> string \<Rightarrow> string \<Rightarrow> error + bool" where
  "verifyDigest kp digest r s =
     (let bnr = bn_hex r
      in if bnr \<ge> sm2_n then Inr False
         else (let bns = bn_hex s
               in if bns \<ge> sm2_n then Inr False
                  else (let t = (bnr + bns) mod sm2_n
                        in if t = 0 then Inr False
                           else (case pub kp of
                                   None \<Rightarrow> Inl TypeError
                                 | Some pb \<Rightarrow>
                                     bind_res
                                       (if pub_foreign kp
                                        then point_add_foreign (point_mul sm2_g bns) (point_mul pb t)
                                        else Inr (point_add (point_mul sm2_g bns) (point_mul pb t)))
                                       (\<lambda>q. bind_res (getX q) (\<lambda>x1.
                                          Inr ((hashToBN digest + x1) mod sm2_n = bnr)))))))"

subsection \<open>The preamble \<open>Z\<^sub>A\<close>\<close>

definition za_prefix :: "u8 list" where
  "za_prefix = [0x00, 0x80, 0x31, 0x32, 0x33, 0x34, 0x35, 0x36, 0x37, 0x38,
                0x31, 0x32, 0x33, 0x34, 0x35, 0x36, 0x37, 0x38]"

text \<open>The bytes that \<open>_combine\<close> hashes, and \<open>_combine\<close> itself.\<close>

definition za_input :: "keypair \<Rightarrow> error + u8 list" where
  "za_input kp =
     bind_res (getX sm2_g) (\<lambda>gx. bind_res (getY sm2_g) (\<lambda>gy.
     bind_res (pub_xy kp) (\<lambda>(x, y).
       Inr (za_prefix @ bn_toArray sm2_a @ bn_toArray sm2_b @ bn_toArray gx @ bn_toArray gy
              @ bn_toArray x @ bn_toArray y))))"

definition combine :: "keypair \<Rightarrow> jsmsg \<Rightarrow> error + u8 list" where
  "combine kp msg =
     bind_res (za_input kp) (\<lambda>za.
     bind_res (sum_sm3 new_sm3 (Some (Bytes za)) None) (\<lambda>(d, st).
       case d of Raw za \<Rightarrow> Inr (za @ msg_bytes msg) | Hex h \<Rightarrow> Inl TypeError))"

text \<open>(\<open>sum\<close> is called without \<open>'hex'\<close> there, so the digest is an array and the last case
  does not arise.)\<close>

subsection \<open>genKeyPair\<close>

text \<open>The loop of \<open>genKeyPair\<close> yields the accepted candidate; \<open>genKeyPair\<close> hands it to the
  constructor as a \<open>BN\<close>.\<close>

fun genKeyPair_pri :: "u8 list list \<Rightarrow> int option" where
  "genKeyPair_pri [] = None"
| "genKeyPair_pri (draw # draws) =
     (let limit = sm2_n - 2;
          d = bn_dec (drbg_hex draw)
      in if d > limit then genKeyPair_pri draws else Some d)"

definition genKeyPair :: "u8 list list \<Rightarrow> (error + keypair) option" where
  "genKeyPair draws = map_option (\<lambda>d. SM2KeyPair None (Some (PriBN d))) (genKeyPair_pri draws)"

subsection \<open>The validation conditions as the specification lists them\<close>





section \<open>Properties of the SM3 engine\<close>

subsection \<open>The compression function never throws on a block\<close>

lemma round_step_ok: "j < 64 \<Longrightarrow> \<exists>r'. round_step w j r = Inr r'"
  by (simp add: round_step_def t_const_def ff_def gg_def bind_res_def Let_def)

lemma rounds_ok: "j + k \<le> 64 \<Longrightarrow> \<exists>r'. rounds w j k r = Inr r'"
proof (induction k arbitrary: j r)
  case 0
  then show ?case by simp
next
  case (Suc k)
  then have "j < 64" by simp
  then obtain r1 where r1: "round_step w j r = Inr r1"
    using round_step_ok by blast
  from Suc.prems have "Suc j + k \<le> 64" by simp
  then obtain r2 where "rounds w (Suc j) k r1 = Inr r2"
    using Suc.IH by blast
  with r1 show ?case by (simp add: bind_res_def)
qed

lemma compress_ok: "2 \<le> length m \<Longrightarrow> \<exists>r. compress rg m = Inr r"
proof -
  assume len: "2 \<le> length m"
  then have "\<not> array_lt_64 m"
    by (cases m; cases "tl m") (auto simp: array_lt_64_def)
  moreover obtain r where "rounds (expand m) 0 64 rg = Inr r"
    using rounds_ok [of 0 64] by auto
  ultimately show ?thesis by (simp add: compress_def bind_res_def)
qed

lemma js_slice_nonneg:
  "0 \<le> a \<Longrightarrow> 0 \<le> b \<Longrightarrow> js_slice xs a b = take (nat (min b (int (length xs)) - a)) (drop (nat a) xs)"
  by (auto simp: js_slice_def Let_def min_def)

lemma absorb_short: "length xs < 64 \<Longrightarrow> absorb rg xs = Inr (rg, xs)"
  by (simp add: absorb.simps [of rg xs])

lemma absorb_long:
  "64 \<le> length xs \<Longrightarrow>
   absorb rg xs = (case compress rg (take 64 xs) of Inl e \<Rightarrow> Inl e | Inr rg' \<Rightarrow> absorb rg' (drop 64 xs))"
  by (simp add: absorb.simps [of rg xs])

lemma write_loop_absorb:
  "0 \<le> i \<Longrightarrow> length ch \<le> 64 \<Longrightarrow> (length ch < 64 \<longrightarrow> int (length m) \<le> i) \<Longrightarrow>
   write_loop m rg ch i = absorb rg (ch @ drop (nat i) m)"
proof (induction m rg ch i rule: write_loop.induct)
  case (1 m rg ch i)
  show ?case
  proof (cases "64 \<le> length ch")
    case False
    with "1.prems" show ?thesis
      by (simp add: write_loop.simps [of m rg ch i] absorb_short)
  next
    case True
    with "1.prems" have len: "length ch = 64" by simp
    let ?ch' = "if i < int (length m) then js_slice m i (min (i + 64) (int (length m))) else []"
    have ch': "?ch' = take 64 (drop (nat i) m)"
      using "1.prems"(1) by (auto simp: js_slice_nonneg min_def)
    show ?thesis
    proof (cases "compress rg ch")
      case (Inl e)
      with len show ?thesis
        by (simp add: write_loop.simps [of m rg ch i] absorb_long)
    next
      case (Inr rg')
      have "write_loop m rg' ?ch' (i + 64) = absorb rg' (?ch' @ drop (nat (i + 64)) m)"
        using "1.prems"(1) by (intro "1.IH" [OF True Inr]) (auto simp: ch')
      also have "?ch' @ drop (nat (i + 64)) m = drop (nat i) m"
      proof -
        have "nat (i + 64) = 64 + nat i" using "1.prems"(1) by simp
        then have "drop (nat (i + 64)) m = drop 64 (drop (nat i) m)" by simp
        then show ?thesis unfolding ch' by (simp only: append_take_drop_id)
      qed
      finally show ?thesis using Inr len
        by (simp add: write_loop.simps [of m rg ch i] absorb_long)
    qed
  qed
qed

lemma write_sm3_absorb:
  assumes "length (chunk st) < 64"
  shows "write_sm3 st msg =
     (case absorb (reg st) (chunk st @ msg_bytes msg) of
        Inl e \<Rightarrow> Inl e
      | Inr (rg, ch) \<Rightarrow> Inr (st\<lparr>reg := rg, chunk := ch, size := size st + length (msg_bytes msg)\<rparr>))"
proof (cases "int (length (msg_bytes msg)) < 64 - int (length (chunk st))")
  case True
  then have "length (chunk st @ msg_bytes msg) < 64" by simp
  then show ?thesis using True
    by (simp add: write_sm3_def absorb_short Let_def)
next
  case False
  let ?m = "msg_bytes msg"
  let ?i = "64 - int (length (chunk st))"
  have i: "0 \<le> ?i" "nat ?i \<le> length ?m" using assms False by auto
  have sl: "js_slice ?m 0 ?i = take (nat ?i) ?m"
    using i False by (simp add: js_slice_nonneg min_def)
  have "write_loop ?m (reg st) (chunk st @ js_slice ?m 0 ?i) ?i
        = absorb (reg st) ((chunk st @ js_slice ?m 0 ?i) @ drop (nat ?i) ?m)"
    using i assms unfolding sl by (intro write_loop_absorb) auto
  also have "(chunk st @ js_slice ?m 0 ?i) @ drop (nat ?i) ?m = chunk st @ ?m"
    unfolding sl by simp
  finally show ?thesis using False
    by (simp add: write_sm3_def Let_def)
qed

lemma absorb_chunk_length: "absorb rg xs = Inr (rg', ch) \<Longrightarrow> length ch < 64"
proof (induction rg xs rule: absorb.induct)
  case (1 rg xs)
  show ?case
  proof (cases "64 \<le> length xs")
    case False
    with "1.prems" show ?thesis by (simp add: absorb_short)
  next
    case True
    with "1.prems" obtain r1 where r1: "compress rg (take 64 xs) = Inr r1"
      and rest: "absorb r1 (drop 64 xs) = Inr (rg', ch)"
      by (auto simp: absorb_long split: sum.splits)
    from "1.IH" [OF True r1 rest] show ?thesis .
  qed
qed

lemma absorb_append:
  "(case absorb rg xs of Inl e \<Rightarrow> Inl e | Inr (rg', ch) \<Rightarrow> absorb rg' (ch @ ys)) = absorb rg (xs @ ys)"
proof (induction rg xs rule: absorb.induct)
  case (1 rg xs)
  show ?case
  proof (cases "64 \<le> length xs")
    case False
    then show ?thesis by (simp add: absorb_short)
  next
    case True
    show ?thesis
    proof (cases "compress rg (take 64 xs)")
      case (Inl e)
      with True show ?thesis by (simp add: absorb_long)
    next
      case (Inr r1)
      from "1.IH" [OF True Inr] Inr True show ?thesis by (simp add: absorb_long)
    qed
  qed
qed

lemma absorb_ok: "\<exists>rg' ch. absorb rg xs = Inr (rg', ch)"
proof (induction rg xs rule: absorb.induct)
  case (1 rg xs)
  show ?case
  proof (cases "64 \<le> length xs")
    case False
    then show ?thesis by (simp add: absorb_short)
  next
    case True
    then have "2 \<le> length (take 64 xs)" by simp
    then obtain r1 where r1: "compress rg (take 64 xs) = Inr r1"
      using compress_ok by blast
    from "1.IH" [OF True r1] r1 True show ?thesis by (simp add: absorb_long)
  qed
qed


lemma writes_absorb:
  "length (chunk st) < 64 \<Longrightarrow>
   writes st parts =
     (case absorb (reg st) (chunk st @ concat (map msg_bytes parts)) of
        Inl e \<Rightarrow> Inl e
      | Inr (rg, ch) \<Rightarrow>
          Inr (st\<lparr>reg := rg, chunk := ch,
                    size := size st + length (concat (map msg_bytes parts))\<rparr>))"
proof (induction parts arbitrary: st)
  case Nil
  then show ?case by (simp add: absorb_short)
next
  case (Cons a as)
  let ?rest = "concat (map msg_bytes as)"
  have app: "absorb (reg st) (chunk st @ concat (map msg_bytes (a # as)))
      = (case absorb (reg st) (chunk st @ msg_bytes a) of
           Inl e \<Rightarrow> Inl e | Inr (rg', ch) \<Rightarrow> absorb rg' (ch @ ?rest))"
    using absorb_append [where rg = "reg st" and xs = "chunk st @ msg_bytes a" and ys = ?rest] by simp
  show ?case
  proof (cases "absorb (reg st) (chunk st @ msg_bytes a)")
    case (Inl e)
    then show ?thesis using Cons.prems app by (simp add: write_sm3_absorb)
  next
    case (Inr p)
    obtain rg1 ch1 where p: "p = (rg1, ch1)" by (cases p)
    let ?st1 = "st\<lparr>reg := rg1, chunk := ch1, size := size st + length (msg_bytes a)\<rparr>"
    have w: "write_sm3 st a = Inr ?st1"
      using Cons.prems Inr p by (simp add: write_sm3_absorb)
    have "length (chunk ?st1) < 64"
      using absorb_chunk_length Inr p by fastforce
    from Cons.IH [OF this] show ?thesis
      using w app Inr p by (auto split: sum.splits)
  qed
qed

lemma pad_arith:
  fixes n :: nat
  shows "56 < (1 + int n) mod 64 \<Longrightarrow> (n + (9 + nat (120 - (1 + int n) mod 64))) mod 64 = 0"
    and "\<not> 56 < (1 + int n) mod 64 \<Longrightarrow> (n + (9 + nat (56 - (1 + int n) mod 64))) mod 64 = 0"
proof -
  define k where "k = (n + 1) mod 64"
  define q where "q = (n + 1) div 64"
  have k: "(1 + int n) mod 64 = int k"
    by (simp add: k_def zmod_int add.commute)
  have k64: "k < 64" by (simp add: k_def)
  have n: "n + 1 = 64 * q + k"
    by (simp add: k_def q_def)
  show "(n + (9 + nat (120 - (1 + int n) mod 64))) mod 64 = 0" if "56 < (1 + int n) mod 64"
  proof -
    have "n + (9 + nat (120 - int k)) = 64 * (q + 2)"
      using n k64 by (simp add: nat_diff_distrib')
    then show ?thesis unfolding k by (simp only: mod_mult_self1_is_0)
  qed
  show "(n + (9 + nat (56 - (1 + int n) mod 64))) mod 64 = 0" if "\<not> 56 < (1 + int n) mod 64"
  proof -
    from that have "k \<le> 56" unfolding k by simp
    then have "n + (9 + nat (56 - int k)) = 64 * (q + 1)"
      using n by (simp add: nat_diff_distrib')
    then show ?thesis unfolding k by (simp only: mod_mult_self1_is_0)
  qed
qed

lemma fill_length: "length (chunk (fill st)) mod 64 = 0"
  by (auto simp: fill_def Let_def be4_def pad_arith)

lemma sum_loop_ok:
  "length ch mod 64 = 0 \<Longrightarrow> i mod 64 = 0 \<Longrightarrow> \<exists>rg'. sum_loop ch rg i = Inr rg'"
proof (induction ch rg i rule: sum_loop.induct)
  case (1 ch rg i)
  show ?case
  proof (cases "i < length ch")
    case False
    then show ?thesis by (simp add: sum_loop.simps [of ch rg i])
  next
    case True
    with "1.prems" have le: "i + 64 \<le> length ch" by presburger
    then have "length (js_slice ch (int i) (int i + 64)) = 64"
      by (auto simp: js_slice_nonneg min_def)
    then obtain r1 where r1: "compress rg (js_slice ch (int i) (int i + 64)) = Inr r1"
      using compress_ok [of "js_slice ch (int i) (int i + 64)" rg] by auto
    have "(i + 64) mod 64 = 0" using "1.prems"(2) by simp
    from "1.IH" [OF True r1 "1.prems"(1) this] r1 True show ?thesis
      by (simp add: sum_loop.simps [of ch rg i])
  qed
qed

lemma sum_sm3_None_ok: "\<exists>d. sum_sm3 st None enc = Inr (d, new_sm3)"
proof -
  obtain rg where "sum_loop (chunk (fill st)) (reg (fill st)) 0 = Inr rg"
    using sum_loop_ok [OF fill_length, of 0] by auto
  then show ?thesis
    by (simp add: sum_sm3_def truthy_msg_def Let_def reset_def new_sm3_def fill_def)
qed

lemma sum_sm3_Some:
  "truthy_msg (Some msg) \<or> st = new_sm3 \<Longrightarrow>
   sum_sm3 st (Some msg) enc =
     (case write_sm3 (reset st) msg of Inl e \<Rightarrow> Inl e | Inr st' \<Rightarrow> sum_sm3 st' None enc)"
proof (cases "truthy_msg (Some msg)")
  case True
  then show ?thesis
    by (simp add: sum_sm3_def truthy_msg_def split: sum.splits)
next
  case False
  assume "truthy_msg (Some msg) \<or> st = new_sm3"
  with False have st: "st = new_sm3" by simp
  from False have "msg_bytes msg = []"
    by (auto simp: truthy_msg_def msg_bytes_def strToBytes_def split: jsmsg.splits)
  then have "write_sm3 (reset st) msg = Inr st"
    unfolding st by (simp add: write_sm3_def Let_def reset_def new_sm3_def)
  with False show ?thesis
    by (simp add: sum_sm3_def truthy_msg_def)
qed

subsection \<open>Known answer\<close>

text \<open>C4: \<open>sum\<close> of the three ASCII bytes "abc" on a fresh engine returns 32 bytes and
  leaves the engine in its initial state; the bytes, rendered as lowercase hex, read
  66c7f0f462eeedd9d1f2d46bdc10e4e24167c4875cf2f7a2297da02b8f4ba8e0.\<close>

theorem sm3_abc:
  "sum_sm3 new_sm3 (Some (Str ''abc'')) None =
     Inr (Raw [0x66, 0xc7, 0xf0, 0xf4, 0x62, 0xee, 0xed, 0xd9, 0xd1, 0xf2, 0xd4, 0x6b,
               0xdc, 0x10, 0xe4, 0xe2, 0x41, 0x67, 0xc4, 0x87, 0x5c, 0xf2, 0xf7, 0xa2,
               0x29, 0x7d, 0xa0, 0x2b, 0x8f, 0x4b, 0xa8, 0xe0], new_sm3)
   \<and> bytes_hex [0x66, 0xc7, 0xf0, 0xf4, 0x62, 0xee, 0xed, 0xd9, 0xd1, 0xf2, 0xd4, 0x6b,
                 0xdc, 0x10, 0xe4, 0xe2, 0x41, 0x67, 0xc4, 0x87, 0x5c, 0xf2, 0xf7, 0xa2,
                 0x29, 0x7d, 0xa0, 0x2b, 0x8f, 0x4b, 0xa8, 0xe0]
       = ''66c7f0f462eeedd9d1f2d46bdc10e4e24167c4875cf2f7a2297da02b8f4ba8e0''"
  by code_simp

subsection \<open>Streaming\<close>

text \<open>C5: for every message and every way of cutting its bytes into consecutive parts,
  writing the parts to a fresh engine and calling \<open>sum()\<close> gives the same result (digest
  and final engine state) as \<open>sum(msg)\<close> on a fresh engine; and that call returns a digest,
  it does not throw.\<close>

theorem streaming_equals_one_shot:
  assumes "msg_bytes msg = concat (map msg_bytes parts)"
  shows "(case writes new_sm3 parts of Inl e \<Rightarrow> Inl e | Inr st \<Rightarrow> sum_sm3 st None enc)
           = sum_sm3 new_sm3 (Some msg) enc
         \<and> (\<exists>d. sum_sm3 new_sm3 (Some msg) enc = Inr (d, new_sm3))"
proof -
  have fresh: "length (chunk new_sm3) < 64" "reset new_sm3 = new_sm3"
    by (simp_all add: new_sm3_def reset_def)
  have one: "sum_sm3 new_sm3 (Some msg) enc =
      (case writes new_sm3 [msg] of Inl e \<Rightarrow> Inl e | Inr st' \<Rightarrow> sum_sm3 st' None enc)"
    using sum_sm3_Some [where st = new_sm3 and msg = msg and enc = enc] fresh
    by (simp split: sum.splits)
  have "concat (map msg_bytes [msg]) = concat (map msg_bytes parts)"
    using assms by simp
  then have eq: "writes new_sm3 [msg] = writes new_sm3 parts"
    by (simp only: writes_absorb [OF fresh(1)])
  obtain rg ch where "absorb (reg new_sm3) (chunk new_sm3 @ concat (map msg_bytes parts)) = Inr (rg, ch)"
    using absorb_ok by blast
  then obtain st where st: "writes new_sm3 parts = Inr st"
    by (simp add: writes_absorb [OF fresh(1)])
  obtain d where "sum_sm3 st None enc = Inr (d, new_sm3)"
    using sum_sm3_None_ok by blast
  with one eq st show ?thesis by simp
qed

theorem streaming_equals_one_shot_witness:
  "msg_bytes (Str ''abc'') = concat (map msg_bytes [Bytes [0x61], Str '''', Str ''bc''])
   \<and> (case writes new_sm3 [Bytes [0x61], Str '''', Str ''bc''] of
         Inl e \<Rightarrow> Inl e | Inr st \<Rightarrow> sum_sm3 st None (Some ''hex''))
       = sum_sm3 new_sm3 (Some (Str ''abc'')) (Some ''hex'')"
proof -
  have h: "msg_bytes (Str ''abc'') = concat (map msg_bytes [Bytes [0x61], Str '''', Str ''bc''])"
    by (simp add: msg_bytes_def strToBytes_def utf8_char_def)
  from streaming_equals_one_shot [OF h, of "Some ''hex''"] h show ?thesis by blast
qed

subsection \<open>sum with a message argument\<close>

lemma sum_empty_string: "sum_sm3 st (Some (Str [])) enc = sum_sm3 st None enc"
  by (simp add: sum_sm3_def truthy_msg_def)

lemma sum_buffered_abc:
  "sum_sm3 \<lparr>reg = iv, chunk = [0x61, 0x62, 0x63], size = 3\<rparr> (Some (Str [])) None =
     Inr (Raw [0x66, 0xc7, 0xf0, 0xf4, 0x62, 0xee, 0xed, 0xd9, 0xd1, 0xf2, 0xd4, 0x6b,
               0xdc, 0x10, 0xe4, 0xe2, 0x41, 0x67, 0xc4, 0x87, 0x5c, 0xf2, 0xf7, 0xa2,
               0x29, 0x7d, 0xa0, 0x2b, 0x8f, 0x4b, 0xa8, 0xe0], new_sm3)"
  by code_simp

lemma sum_reset_write_empty:
  "(case write_sm3 (reset \<lparr>reg = iv, chunk = [0x61, 0x62, 0x63], size = 3\<rparr>) (Str []) of
      Inl e \<Rightarrow> Inl e | Inr st \<Rightarrow> sum_sm3 st None None) =
     Inr (Raw [0x1a, 0xb2, 0x1d, 0x83, 0x55, 0xcf, 0xa1, 0x7f, 0x8e, 0x61, 0x19, 0x48,
               0x31, 0xe8, 0x1a, 0x8f, 0x22, 0xbe, 0xc8, 0xc7, 0x28, 0xfe, 0xfb, 0x74,
               0x7e, 0xd0, 0x35, 0xeb, 0x50, 0x82, 0xaa, 0x2b], new_sm3)"
  by code_simp

lemma write_abc:
  "write_sm3 new_sm3 (Str ''abc'') = Inr \<lparr>reg = iv, chunk = [0x61, 0x62, 0x63], size = 3\<rparr>"
  by code_simp

text \<open>C6, at the input where the code departs from it: an engine that has buffered the
  bytes "abc" (third equation) is asked for \<open>sum("")\<close>. The empty string is falsy, so the
  engine is not reset and the digest is that of "abc" (first equation), whereas
  \<open>reset(); write(""); sum()\<close> gives the digest of the empty message (second equation).\<close>

theorem sum_empty_string_not_reset:
  "sum_sm3 \<lparr>reg = iv, chunk = [0x61, 0x62, 0x63], size = 3\<rparr> (Some (Str [])) None =
     Inr (Raw [0x66, 0xc7, 0xf0, 0xf4, 0x62, 0xee, 0xed, 0xd9, 0xd1, 0xf2, 0xd4, 0x6b,
               0xdc, 0x10, 0xe4, 0xe2, 0x41, 0x67, 0xc4, 0x87, 0x5c, 0xf2, 0xf7, 0xa2,
               0x29, 0x7d, 0xa0, 0x2b, 0x8f, 0x4b, 0xa8, 0xe0], new_sm3)
   \<and> (case write_sm3 (reset \<lparr>reg = iv, chunk = [0x61, 0x62, 0x63], size = 3\<rparr>) (Str []) of
         Inl e \<Rightarrow> Inl e | Inr st \<Rightarrow> sum_sm3 st None None) =
     Inr (Raw [0x1a, 0xb2, 0x1d, 0x83, 0x55, 0xcf, 0xa1, 0x7f, 0x8e, 0x61, 0x19, 0x48,
               0x31, 0xe8, 0x1a, 0x8f, 0x22, 0xbe, 0xc8, 0xc7, 0x28, 0xfe, 0xfb, 0x74,
               0x7e, 0xd0, 0x35, 0xeb, 0x50, 0x82, 0xaa, 0x2b], new_sm3)
   \<and> write_sm3 new_sm3 (Str ''abc'') = Inr \<lparr>reg = iv, chunk = [0x61, 0x62, 0x63], size = 3\<rparr>"
  using sum_buffered_abc sum_reset_write_empty write_abc by (intro conjI)

subsection \<open>Hex output\<close>

lemma sum_a_hex:
  "sum_sm3 new_sm3 (Some (Str ''a'')) (Some ''hex'') =
     Inr (Hex ''623476ac18f65a299e43c7fec61b49c7e764a91a18ccb82f1917a29c86c5e88'', new_sm3)"
  by code_simp

lemma sum_a_raw:
  "sum_sm3 new_sm3 (Some (Str ''a'')) None =
     Inr (Raw [0x62, 0x34, 0x76, 0xac, 0x18, 0xf6, 0x5a, 0x29, 0x09, 0xe4, 0x3c, 0x7f,
               0xec, 0x61, 0xb4, 0x9c, 0x7e, 0x76, 0x4a, 0x91, 0xa1, 0x8c, 0xcb, 0x82,
               0xf1, 0x91, 0x7a, 0x29, 0xc8, 0x6c, 0x5e, 0x88], new_sm3)"
  by code_simp

lemma hex_of_a_raw:
  "bytes_hex [0x62, 0x34, 0x76, 0xac, 0x18, 0xf6, 0x5a, 0x29, 0x09, 0xe4, 0x3c, 0x7f,
              0xec, 0x61, 0xb4, 0x9c, 0x7e, 0x76, 0x4a, 0x91, 0xa1, 0x8c, 0xcb, 0x82,
              0xf1, 0x91, 0x7a, 0x29, 0xc8, 0x6c, 0x5e, 0x88]
     = ''623476ac18f65a2909e43c7fec61b49c7e764a91a18ccb82f1917a29c86c5e88''"
  by code_simp

text \<open>C10, at an input where the code departs from it: for the one-byte message "a" the
  third register is 09e43c7f. The hex output renders it as "9e43c7f", so the string has 63
  characters (first equation), while the byte output carries the byte 09 (second equation)
  and renders as 64 characters (third equation).\<close>

theorem sum_hex_drops_leading_zero:
  "sum_sm3 new_sm3 (Some (Str ''a'')) (Some ''hex'') =
     Inr (Hex ''623476ac18f65a299e43c7fec61b49c7e764a91a18ccb82f1917a29c86c5e88'', new_sm3)
   \<and> sum_sm3 new_sm3 (Some (Str ''a'')) None =
     Inr (Raw [0x62, 0x34, 0x76, 0xac, 0x18, 0xf6, 0x5a, 0x29, 0x09, 0xe4, 0x3c, 0x7f,
               0xec, 0x61, 0xb4, 0x9c, 0x7e, 0x76, 0x4a, 0x91, 0xa1, 0x8c, 0xcb, 0x82,
               0xf1, 0x91, 0x7a, 0x29, 0xc8, 0x6c, 0x5e, 0x88], new_sm3)
   \<and> bytes_hex [0x62, 0x34, 0x76, 0xac, 0x18, 0xf6, 0x5a, 0x29, 0x09, 0xe4, 0x3c, 0x7f,
                 0xec, 0x61, 0xb4, 0x9c, 0x7e, 0x76, 0x4a, 0x91, 0xa1, 0x8c, 0xcb, 0x82,
                 0xf1, 0x91, 0x7a, 0x29, 0xc8, 0x6c, 0x5e, 0x88]
       = ''623476ac18f65a2909e43c7fec61b49c7e764a91a18ccb82f1917a29c86c5e88''"
  using sum_a_hex sum_a_raw hex_of_a_raw by (intro conjI)

section \<open>Properties of the SM2 code\<close>

subsection \<open>Reading numbers from strings\<close>

lemma bn_hex_blank_sign:
  "bn_hex ''1 0'' = 16 \<and> bn_hex ''-1'' = - 1 \<and> bn_hex '' -1F '' = - 31 \<and> bn_hex [] = 0"
  by code_simp

lemma naf_neg_value_one: "naf_neg_value (max (bit_length 1) 256 + 1) 1 = 2 ^ 257 - 1"
  by code_simp

lemma pubFromString_negative:
  "pubFromString (''02-'' @ replicate 63 CHR ''1'') = Inl RedOnlyPositives"
  by code_simp

subsection \<open>verifyDigest and the lower bound of the signature\<close>

lemma verifyDigest_rejects_upper:
  "sm2_n \<le> bn_hex r \<or> sm2_n \<le> bn_hex s \<Longrightarrow> verifyDigest kp digest r s = Inr False"
  by (auto simp: verifyDigest_def Let_def)

lemma point_mul_zero: "point_mul pt 0 = Infinity"
  by (simp add: point_mul_def point_times.simps [of pt 0])

lemma point_mul_even:
  "0 < k \<Longrightarrow> k mod 2 = 0 \<Longrightarrow> point_mul pt k = point_dbl (point_mul pt (k div 2))"
  by (simp add: point_mul_def point_times.simps [of pt k] pos_imp_zdiv_nonneg_iff)

lemma point_mul_odd:
  "0 < k \<Longrightarrow> k mod 2 = 1 \<Longrightarrow> point_mul pt k = point_add (point_dbl (point_mul pt (k div 2))) pt"
  by (simp add: point_mul_def point_times.simps [of pt k] pos_imp_zdiv_nonneg_iff)

lemma point_mul_one: "point_mul sm2_g 1 = sm2_g"
  by (simp add: point_mul_odd point_mul_zero point_dbl_def sm2_g_def)

text \<open>C1, at inputs where the code departs from it. The key pair is the one of the private
  key 1, whose public key is the generator (last equation). \<open>verifyDigest\<close> compares \<open>r\<close>
  and \<open>s\<close> with \<open>n\<close> only; for the digest \<open>a931029e\<dots>95e283d1\<close> it accepts \<open>r = 0, s = 1\<close>,
  and for the digest \<open>cd3b51d2\<dots>0688cc5d\<close> it accepts \<open>r = 1, s = 0\<close>.\<close>

theorem verifyDigest_accepts_zero:
  "verifyDigest \<lparr>pub = Some sm2_g, pri = Some 1, pub_foreign = False\<rparr>
     [0xa9, 0x31, 0x02, 0x9e, 0x28, 0x37, 0x83, 0xff, 0xf2, 0xa7, 0x10, 0xa8, 0x05, 0x8c, 0x45, 0xb1,
      0xd5, 0xf5, 0xe5, 0x62, 0x61, 0x3b, 0x91, 0xfa, 0x0a, 0x5f, 0xc5, 0xeb, 0x95, 0xe2, 0x83, 0xd1]
     ''0'' ''1'' = Inr True
   \<and> verifyDigest \<lparr>pub = Some sm2_g, pri = Some 1, pub_foreign = False\<rparr>
     [0xcd, 0x3b, 0x51, 0xd2, 0xe0, 0xe6, 0x7e, 0xe6, 0xa0, 0x66, 0xfb, 0xb9, 0x95, 0xc6, 0x36, 0x6a,
      0xe2, 0x20, 0xd3, 0xab, 0x2f, 0x5f, 0xf9, 0x49, 0xe2, 0x61, 0xae, 0x80, 0x06, 0x88, 0xcc, 0x5d]
     ''1'' ''0'' = Inr True
   \<and> point_mul sm2_g 1 = sm2_g"
  by code_simp

subsection \<open>genKeyPair\<close>

text \<open>C2, at an input where the code departs from it: the generator yields 31 zero bytes and
  the byte \<open>0x10\<close>, whose hex text ends in "10". The constructor \<open>new BN(text)\<close> has no base
  argument and reads the text in base 10, so the candidate private key is 10, while the
  big-endian value of the bytes is 16.\<close>

theorem genKeyPair_reads_hex_as_decimal:
  "genKeyPair_pri [replicate 31 0 @ [0x10]] = Some 10
   \<and> bn_bytes (replicate 31 0 @ [0x10]) = 16
   \<and> bn_hex (drbg_hex (replicate 31 0 @ [0x10])) = 16
   \<and> genKeyPair [replicate 31 0 @ [0x10]] = Some (SM2KeyPair None (Some (PriBN 10)))"
proof -
  have cand: "genKeyPair_pri [replicate 31 0 @ [0x10]] = Some 10"
    by code_simp
  have be: "bn_bytes (replicate 31 0 @ [0x10]) = 16" "bn_hex (drbg_hex (replicate 31 0 @ [0x10])) = 16"
    by code_simp+
  have "genKeyPair [replicate 31 0 @ [0x10]] = Some (SM2KeyPair None (Some (PriBN 10)))"
    unfolding genKeyPair_def cand by simp
  with cand be show ?thesis by blast
qed

subsection \<open>The nonce of signDigest\<close>

lemma sign_nonce_range: "0 \<le> sign_nonce draw \<and> sign_nonce draw < sm2_n"
  by (simp add: sign_nonce_def sm2_n_def)

text \<open>C3, at the input where the code departs from it: when the generator yields 32 zero
  bytes the nonce is \<open>k = 0\<close>; the code computes \<open>[0]G\<close>, the point at infinity, and the
  call \<open>getX()\<close> on it raises a TypeError, for every key pair and digest.\<close>

theorem signDigest_nonce_zero:
  "sign_nonce (replicate 32 0) = 0
   \<and> signDigest kp digest (replicate 32 0 # draws) = Some (Inl TypeError)"
proof -
  have k: "sign_nonce (replicate 32 0) = 0"
    by code_simp
  then have "signDigest kp digest (replicate 32 0 # draws) = Some (Inl TypeError)"
    by (simp add: Let_def point_mul_zero getX_def)
  with k show ?thesis by blast
qed

subsection \<open>Public-key encodings\<close>

text \<open>C7, at an input where the code departs from it: the point with \<open>x = 0\<close> and even \<open>y\<close> on
  the curve. \<open>toString(16, 32)\<close> pads to a multiple of 32 characters, so \<open>x\<close> is rendered
  by 32 zeros, not 64; \<open>_pubFromString\<close> rejects the result in every mode. The byte
  encoding of the same point has 32 bytes for each coordinate and is read back.\<close>

theorem pubToString_short_coordinate:
  "curve_validate (Point 0 0xfd4511e81736a60f07e88a83d6cf5a167fae6d1a9c9330e76e232e00f5cdc154)
   \<and> pubToString \<lparr>pub = Some (Point 0 0xfd4511e81736a60f07e88a83d6cf5a167fae6d1a9c9330e76e232e00f5cdc154), pri = None, pub_foreign = False\<rparr> ''compress''
       = Inr ''0200000000000000000000000000000000''
   \<and> pubFromString ''0200000000000000000000000000000000'' = Inl InvalidKeyString
   \<and> pubToString \<lparr>pub = Some (Point 0 0xfd4511e81736a60f07e88a83d6cf5a167fae6d1a9c9330e76e232e00f5cdc154), pri = None, pub_foreign = False\<rparr> ''nocompress''
       = Inr ''0400000000000000000000000000000000fd4511e81736a60f07e88a83d6cf5a167fae6d1a9c9330e76e232e00f5cdc154''
   \<and> pubFromString ''0400000000000000000000000000000000fd4511e81736a60f07e88a83d6cf5a167fae6d1a9c9330e76e232e00f5cdc154''
       = Inl InvalidKeyString
   \<and> pubToString \<lparr>pub = Some (Point 0 0xfd4511e81736a60f07e88a83d6cf5a167fae6d1a9c9330e76e232e00f5cdc154), pri = None, pub_foreign = False\<rparr> ''mix''
       = Inr ''0600000000000000000000000000000000fd4511e81736a60f07e88a83d6cf5a167fae6d1a9c9330e76e232e00f5cdc154''
   \<and> pubFromString ''0600000000000000000000000000000000fd4511e81736a60f07e88a83d6cf5a167fae6d1a9c9330e76e232e00f5cdc154''
       = Inl InvalidKeyString
   \<and> bind_res (pubToBytes \<lparr>pub = Some (Point 0 0xfd4511e81736a60f07e88a83d6cf5a167fae6d1a9c9330e76e232e00f5cdc154), pri = None, pub_foreign = False\<rparr> ''nocompress'') pubFromBytes
       = Inr (Point 0 0xfd4511e81736a60f07e88a83d6cf5a167fae6d1a9c9330e76e232e00f5cdc154)"
  by code_simp

subsection \<open>The bytes hashed into \<open>Z\<^sub>A\<close>\<close>

subsubsection \<open>The public key of the private key 107\<close>

text \<open>The multiples of the generator met when \<open>[107]G\<close> is computed by doubling and adding,
  one group operation each.\<close>

lemma sm2_g_times_2:
  "point_dbl sm2_g
     = Point 0x56cefd60d7c87c000d58ef57fa73ba4d9c0dfa08c08a7331495c2e1da3f2bd52
            0x31b7e7e6cc8189f668535ce0f8eaf1bd6de84c182f6c8e716f780d3a970a23c3"
  by code_simp

lemma sm2_g_times_3:
  "point_add (Point 0x56cefd60d7c87c000d58ef57fa73ba4d9c0dfa08c08a7331495c2e1da3f2bd52
            0x31b7e7e6cc8189f668535ce0f8eaf1bd6de84c182f6c8e716f780d3a970a23c3) sm2_g
     = Point 0xa97f7cd4b3c993b4be2daa8cdb41e24ca13f6bd945302244e26918f1d0509ebf
            0x530b5dd88c688ef5ccc5cec08a72150f7c400ee5cd045292aaacdd037458f6e6"
  by code_simp

lemma sm2_g_times_6:
  "point_dbl (Point 0xa97f7cd4b3c993b4be2daa8cdb41e24ca13f6bd945302244e26918f1d0509ebf
            0x530b5dd88c688ef5ccc5cec08a72150f7c400ee5cd045292aaacdd037458f6e6)
     = Point 0x0927afb57d93483bbb17c93e71f22a3105ff8856a66016892c8b1a1a3c4b0d30
            0x150c6b1ab4d1fc7eac1c0ef6ebf2664581adf1f0855a064dd572103000088f63"
  by code_simp

lemma sm2_g_times_12:
  "point_dbl (Point 0x0927afb57d93483bbb17c93e71f22a3105ff8856a66016892c8b1a1a3c4b0d30
            0x150c6b1ab4d1fc7eac1c0ef6ebf2664581adf1f0855a064dd572103000088f63)
     = Point 0xbfc2df6bb17f971ad89058ca059be46e5f7b516c5bdaddad9c9f042d0279270a
            0xb145513f59636106cef696b67939bd7b73c9fc6fd150aaaab5fbf87b64af3c26"
  by code_simp

lemma sm2_g_times_13:
  "point_add (Point 0xbfc2df6bb17f971ad89058ca059be46e5f7b516c5bdaddad9c9f042d0279270a
            0xb145513f59636106cef696b67939bd7b73c9fc6fd150aaaab5fbf87b64af3c26) sm2_g
     = Point 0x952072d6ff9c65bdfa804513275f58aa7bea65c6421e189e2b834f1d509b9cd0
            0xe6bb9804458bb70f1a473f8d9748f23858d1434ae934ba7503891e105e009b00"
  by code_simp

lemma sm2_g_times_26:
  "point_dbl (Point 0x952072d6ff9c65bdfa804513275f58aa7bea65c6421e189e2b834f1d509b9cd0
            0xe6bb9804458bb70f1a473f8d9748f23858d1434ae934ba7503891e105e009b00)
     = Point 0xa0a1a4fbeb476576bcf26fe238a102c273783ef304251e748e6a9e4fdf895290
            0x8dfdd7cd150d25640d09c3f281d4c41cec73068587361b34e54f7f3a4896d9d3"
  by code_simp

lemma sm2_g_times_52:
  "point_dbl (Point 0xa0a1a4fbeb476576bcf26fe238a102c273783ef304251e748e6a9e4fdf895290
            0x8dfdd7cd150d25640d09c3f281d4c41cec73068587361b34e54f7f3a4896d9d3)
     = Point 0xd62fed8ce52682d620498d04f39cdf59109e9f4b61c6f6bd869252402e6a9f99
            0x106309c4f4f41c3be63d189ea323c1dbaeb47ad53e38251358f3f064c341c481"
  by code_simp

lemma sm2_g_times_53:
  "point_add (Point 0xd62fed8ce52682d620498d04f39cdf59109e9f4b61c6f6bd869252402e6a9f99
            0x106309c4f4f41c3be63d189ea323c1dbaeb47ad53e38251358f3f064c341c481) sm2_g
     = Point 0xd909bb3be4c02cd84cd09b8e39701ff16d96e2a601b93c0e828cc5c0f20462a9
            0x10d8c2a3b3396bd85bb65608aa16f24f05977fb39adacec75eefa9a3ec3f9511"
  by code_simp

lemma sm2_g_times_106:
  "point_dbl (Point 0xd909bb3be4c02cd84cd09b8e39701ff16d96e2a601b93c0e828cc5c0f20462a9
            0x10d8c2a3b3396bd85bb65608aa16f24f05977fb39adacec75eefa9a3ec3f9511)
     = Point 0x3e0417206422ad1bf56d0853313c64ec98999ef103eca18265b433a8dfb5ce3d
            0x63a185e898896c4a60cabfa0f854727802876cabef2d641ded5571f713fb7ed3"
  by code_simp

lemma sm2_g_times_107:
  "point_add (Point 0x3e0417206422ad1bf56d0853313c64ec98999ef103eca18265b433a8dfb5ce3d
            0x63a185e898896c4a60cabfa0f854727802876cabef2d641ded5571f713fb7ed3) sm2_g
     = Point 0x3b3de05121ff3a36d9dcd23ac5c15de8d757ae92795b15410e1ecd9e46466a47
            0x007b8326ebd1926d5ab4cccacefee53ad6106c43e6eb5c91a11606102e19c39b"
  by code_simp

lemma sm2_g_times_107_mul:
  "point_mul sm2_g 107
     = Point 0x3b3de05121ff3a36d9dcd23ac5c15de8d757ae92795b15410e1ecd9e46466a47
             0x007b8326ebd1926d5ab4cccacefee53ad6106c43e6eb5c91a11606102e19c39b"
  by (simp add: point_mul_odd point_mul_even point_mul_one
        sm2_g_times_2 sm2_g_times_3 sm2_g_times_6 sm2_g_times_12 sm2_g_times_13
        sm2_g_times_26 sm2_g_times_52 sm2_g_times_53 sm2_g_times_106 sm2_g_times_107)

text \<open>C8, at an input where the code departs from it: the key pair of the private key 107,
  whose public key \<open>[107]G\<close> has a \<open>y\<close> coordinate below \<open>2 ^ 248\<close>. \<open>toArray()\<close> without a length
  gives 31 bytes for it: the bytes hashed are the 18 bytes of the preamble, six times 32
  bytes, less the leading zero byte of \<open>y\<close>, 209 in all.\<close>

theorem za_input_unpadded:
  "point_mul sm2_g 107 = Point 0x3b3de05121ff3a36d9dcd23ac5c15de8d757ae92795b15410e1ecd9e46466a47
                               0x007b8326ebd1926d5ab4cccacefee53ad6106c43e6eb5c91a11606102e19c39b
   \<and> curve_validate (Point 0x3b3de05121ff3a36d9dcd23ac5c15de8d757ae92795b15410e1ecd9e46466a47
                           0x007b8326ebd1926d5ab4cccacefee53ad6106c43e6eb5c91a11606102e19c39b)
   \<and> za_input \<lparr>pub = Some (Point 0x3b3de05121ff3a36d9dcd23ac5c15de8d757ae92795b15410e1ecd9e46466a47
                                  0x007b8326ebd1926d5ab4cccacefee53ad6106c43e6eb5c91a11606102e19c39b),
                 pri = Some 107, pub_foreign = False\<rparr>
       = Inr (za_prefix @ bn_toArray_len sm2_a 32 @ bn_toArray_len sm2_b 32
               @ bn_toArray_len 0x32C4AE2C1F1981195F9904466A39C9948FE30BBFF2660BE1715A4589334C74C7 32
               @ bn_toArray_len 0xBC3736A2F4F6779C59BDCEE36B692153D0A9877CC62A474002DF32E52139F0A0 32
               @ bn_toArray_len 0x3b3de05121ff3a36d9dcd23ac5c15de8d757ae92795b15410e1ecd9e46466a47 32
               @ tl (bn_toArray_len 0x007b8326ebd1926d5ab4cccacefee53ad6106c43e6eb5c91a11606102e19c39b 32))
   \<and> hd (bn_toArray_len 0x007b8326ebd1926d5ab4cccacefee53ad6106c43e6eb5c91a11606102e19c39b 32) = 0
   \<and> map_sum id length
        (za_input \<lparr>pub = Some (Point 0x3b3de05121ff3a36d9dcd23ac5c15de8d757ae92795b15410e1ecd9e46466a47
                                     0x007b8326ebd1926d5ab4cccacefee53ad6106c43e6eb5c91a11606102e19c39b),
                    pri = Some 107, pub_foreign = False\<rparr>) = Inr 209"
proof -
  have rest:
    "curve_validate (Point 0x3b3de05121ff3a36d9dcd23ac5c15de8d757ae92795b15410e1ecd9e46466a47
                             0x007b8326ebd1926d5ab4cccacefee53ad6106c43e6eb5c91a11606102e19c39b)
     \<and> za_input \<lparr>pub = Some (Point 0x3b3de05121ff3a36d9dcd23ac5c15de8d757ae92795b15410e1ecd9e46466a47
                                    0x007b8326ebd1926d5ab4cccacefee53ad6106c43e6eb5c91a11606102e19c39b),
                   pri = Some 107, pub_foreign = False\<rparr>
         = Inr (za_prefix @ bn_toArray_len sm2_a 32 @ bn_toArray_len sm2_b 32
                 @ bn_toArray_len 0x32C4AE2C1F1981195F9904466A39C9948FE30BBFF2660BE1715A4589334C74C7 32
                 @ bn_toArray_len 0xBC3736A2F4F6779C59BDCEE36B692153D0A9877CC62A474002DF32E52139F0A0 32
                 @ bn_toArray_len 0x3b3de05121ff3a36d9dcd23ac5c15de8d757ae92795b15410e1ecd9e46466a47 32
                 @ tl (bn_toArray_len 0x007b8326ebd1926d5ab4cccacefee53ad6106c43e6eb5c91a11606102e19c39b 32))
     \<and> hd (bn_toArray_len 0x007b8326ebd1926d5ab4cccacefee53ad6106c43e6eb5c91a11606102e19c39b 32) = 0
     \<and> map_sum id length
          (za_input \<lparr>pub = Some (Point 0x3b3de05121ff3a36d9dcd23ac5c15de8d757ae92795b15410e1ecd9e46466a47
                                       0x007b8326ebd1926d5ab4cccacefee53ad6106c43e6eb5c91a11606102e19c39b),
                      pri = Some 107, pub_foreign = False\<rparr>) = Inr 209"
    by code_simp
  from sm2_g_times_107_mul rest show ?thesis by (rule conjI)
qed

subsection \<open>Validation in the constructor\<close>






lemma constructor_read_error: "key_material a b = Inl e \<Longrightarrow> SM2KeyPair a b = Inl e"
  by (simp add: SM2KeyPair_def bind_res_def)








end
